theory Spec2Isabelle
  imports Main "HOL-Library.Word" "HOL-Library.AList" "HOL-Library.Sublist"
begin

section \<open>Python primitives used by jobmonitor.py\<close>

text \<open>
  The exceptions the module can raise. None of the handlers catches anything, so an
  exception leaves the handler and is a result of its own, next to a response.
\<close>

datatype errno = ENOENT | EISDIR | ENOTDIR | EEXIST

datatype py_error =
    KeyError string
  | TypeError
  | AttributeError
  | IndexError
  | IOError errno string
  | OSError errno string
  | UnicodeDecodeError
  | UnicodeEncodeError
  | BadRequest

subsection \<open>Strings\<close>

text \<open>\<^verbatim>\<open>s.startswith(p)\<close> and \<^verbatim>\<open>sub in s\<close>.\<close>

fun startswith :: "string \<Rightarrow> string \<Rightarrow> bool" where
  "startswith s [] = True"
| "startswith [] (p # ps) = False"
| "startswith (c # cs) (p # ps) = (c = p \<and> startswith cs ps)"

fun py_in :: "string \<Rightarrow> string \<Rightarrow> bool" where
  "py_in sub [] = (sub = [])"
| "py_in sub (c # cs) = (startswith (c # cs) sub \<or> py_in sub cs)"

definition endswith :: "string \<Rightarrow> string \<Rightarrow> bool" where
  "endswith s p = startswith (rev s) (rev p)"

text \<open>
  \<^verbatim>\<open>s.replace(old, new)\<close>: the occurrences of \<open>old\<close> are found from the left and do not
  overlap; the scan goes on behind the text put in. With an empty \<open>old\<close> Python puts
  \<open>new\<close> before every character and at the end.
\<close>

function py_replace :: "string \<Rightarrow> string \<Rightarrow> string \<Rightarrow> string" where
  "py_replace [] new s = new @ concat (map (\<lambda>c. c # new) s)"
| "py_replace (a # old) new [] = []"
| "py_replace (a # old) new (c # cs) =
     (if startswith (c # cs) (a # old)
      then new @ py_replace (a # old) new (drop (length old) cs)
      else c # py_replace (a # old) new cs)"
  by pat_completeness auto
termination
  by (relation "measure (\<lambda>(old, new, s). length s)") auto

text \<open>
  \<^verbatim>\<open>s.splitlines()\<close> on a byte string: a line ends at LF, CR or CRLF, the terminators
  are dropped, and a terminator at the very end opens no further line.
\<close>

fun splitlines_acc :: "string \<Rightarrow> string \<Rightarrow> string list" where
  "splitlines_acc acc [] = (if acc = [] then [] else [rev acc])"
| "splitlines_acc acc (c # cs) =
     (if c = CHR 0x0A then rev acc # splitlines_acc [] cs
      else if c = CHR 0x0D then
        (case cs of
           d # ds \<Rightarrow> if d = CHR 0x0A then rev acc # splitlines_acc [] ds
                     else rev acc # splitlines_acc [] cs
         | [] \<Rightarrow> rev acc # splitlines_acc [] cs)
      else splitlines_acc (c # acc) cs)"

definition splitlines :: "string \<Rightarrow> string list" where
  "splitlines s = splitlines_acc [] s"

text \<open>
  \<^verbatim>\<open>xs[-n:]\<close>: for a positive \<open>n\<close> the last \<open>n\<close> elements (all of them when there are
  fewer), for \<open>n = 0\<close> the whole list (\<^verbatim>\<open>xs[0:]\<close>), for a negative \<open>n\<close> the list without
  its first \<open>-n\<close> elements.
\<close>

definition slice_from_neg :: "'a list \<Rightarrow> int \<Rightarrow> 'a list" where
  "slice_from_neg xs n =
     (if 0 < n then drop (length xs - nat n) xs else drop (nat (- n)) xs)"

text \<open>\<^verbatim>\<open>"%d" % i\<close> and \<^verbatim>\<open>int(s)\<close> on a string of decimal digits.\<close>

function str_nat :: "nat \<Rightarrow> string" where
  "str_nat n =
     (if n < 10 then [''0123456789'' ! n]
      else str_nat (n div 10) @ [''0123456789'' ! (n mod 10)])"
  by pat_completeness auto
termination
  by (relation "measure id") auto

definition str_int :: "int \<Rightarrow> string" where
  "str_int i = (if i < 0 then CHR ''-'' # str_nat (nat (- i)) else str_nat (nat i))"

definition digit_value :: "char \<Rightarrow> int" where
  "digit_value c = int (of_char c) - 48"

definition int_of_digits :: "string \<Rightarrow> int" where
  "int_of_digits s = foldl (\<lambda>a c. 10 * a + digit_value c) 0 s"

subsection \<open>Regular expressions\<close>

text \<open>
  The two patterns of the module, \<^verbatim>\<open>.+_(.+).conf\<close> and \<^verbatim>\<open>pid=(\d+)\<close>, are sequences of
  single characters, greedy repetitions \<^verbatim>\<open>x+\<close> of a character class, and groups
  \<^verbatim>\<open>(x+)\<close>. The matcher is Python's backtracking one on such sequences: a repetition
  first takes all the characters it can and gives them back one at a time, and
  \<^verbatim>\<open>re.search\<close> tries the start positions from the left. The dot matches every
  character but the line feed.
\<close>

datatype cclass = Lit char | Dot | Digit

fun accepts :: "cclass \<Rightarrow> char \<Rightarrow> bool" where
  "accepts (Lit a) c = (c = a)"
| "accepts Dot c = (c \<noteq> CHR 0x0A)"
| "accepts Digit c = (c \<in> set ''0123456789'')"

datatype tok = One cclass | Plus cclass | GroupPlus cclass

fun backtrack :: "(nat \<Rightarrow> 'a option) \<Rightarrow> nat \<Rightarrow> 'a option" where
  "backtrack f 0 = None"
| "backtrack f (Suc i) = (case f (Suc i) of Some r \<Rightarrow> Some r | None \<Rightarrow> backtrack f i)"

fun match_here :: "tok list \<Rightarrow> string \<Rightarrow> string list option" where
  "match_here [] s = Some []"
| "match_here (One c # ts) s =
     (case s of [] \<Rightarrow> None
      | x # xs \<Rightarrow> if accepts c x then match_here ts xs else None)"
| "match_here (Plus c # ts) s =
     backtrack (\<lambda>i. match_here ts (drop i s)) (length (takeWhile (accepts c) s))"
| "match_here (GroupPlus c # ts) s =
     backtrack (\<lambda>i. map_option (\<lambda>gs. take i s # gs) (match_here ts (drop i s)))
       (length (takeWhile (accepts c) s))"

fun re_search :: "tok list \<Rightarrow> string \<Rightarrow> string list option" where
  "re_search ts [] = match_here ts []"
| "re_search ts (c # cs) =
     (case match_here ts (c # cs) of Some gs \<Rightarrow> Some gs | None \<Rightarrow> re_search ts cs)"

subsection \<open>Paths\<close>

text \<open>
  \<^verbatim>\<open>os.path.join(a, b)\<close>, \<^verbatim>\<open>os.path.isabs\<close> and \<^verbatim>\<open>os.path.splitext\<close> of posixpath.
  \<^verbatim>\<open>os.path.abspath\<close> joins a relative path to the working directory; its final
  \<^verbatim>\<open>normpath\<close> is the identity on the paths of a configuration written in normal form
  (no empty, \<^verbatim>\<open>.\<close> or \<^verbatim>\<open>..\<close> component, no slash at the end), which is what is modelled.
\<close>

definition path_join :: "string \<Rightarrow> string \<Rightarrow> string" where
  "path_join a b =
     (if startswith b ''/'' then b
      else if a = [] \<or> endswith a ''/'' then a @ b
      else a @ ''/'' @ b)"

definition isabs :: "string \<Rightarrow> bool" where
  "isabs p = startswith p ''/''"

definition abspath :: "string \<Rightarrow> string \<Rightarrow> string" where
  "abspath cwd p = (if isabs p then p else path_join cwd p)"

text \<open>\<^verbatim>\<open>p.rfind(c)\<close>: the last index of the character, \<open>-1\<close> when there is none.\<close>

fun rfind_from :: "char \<Rightarrow> string \<Rightarrow> int \<Rightarrow> int \<Rightarrow> int" where
  "rfind_from c [] i found = found"
| "rfind_from c (x # xs) i found = rfind_from c xs (i + 1) (if x = c then i else found)"

definition rfind :: "char \<Rightarrow> string \<Rightarrow> int" where
  "rfind c p = rfind_from c p 0 (- 1)"

text \<open>
  \<^verbatim>\<open>splitext\<close> cuts at the last dot behind the last slash, unless only dots stand between
  that slash and the dot (a leading dot starts no extension).
\<close>

definition splitext :: "string \<Rightarrow> string \<times> string" where
  "splitext p =
     (let sepIndex = rfind CHR ''/'' p; dotIndex = rfind CHR ''.'' p in
      if dotIndex > sepIndex
         \<and> list_ex (\<lambda>c. c \<noteq> CHR ''.'') (take (nat (dotIndex - (sepIndex + 1))) (drop (nat (sepIndex + 1)) p))
      then (take (nat dotIndex) p, drop (nat dotIndex) p)
      else (p, []))"

section \<open>Configuration and external collaborators\<close>

text \<open>
  The result of fabric's \<^verbatim>\<open>run\<close>: the output of the remote command, with the attribute
  \<^verbatim>\<open>return_code\<close>, the exit status of the command. The attribute \<^verbatim>\<open>succeeded\<close> is not a
  value of its own: \<^verbatim>\<open>run\<close> sets \<^verbatim>\<open>failed\<close> when the exit status is not 0, the module leaves
  fabric's accepted exit codes at that default, and \<^verbatim>\<open>succeeded\<close> is \<^verbatim>\<open>not failed\<close>.
\<close>

record cmd_result =
  return_code :: int
  stdout :: string

definition succeeded :: "cmd_result \<Rightarrow> bool" where
  "succeeded r = (return_code r = 0)"

text \<open>
  \<^verbatim>\<open>app.config\<close>, the working directory of the process, and the remote execution
  \<^verbatim>\<open>run\<close> under \<^verbatim>\<open>settings(host_string=..., warn_only=True)\<close>, a function of the host and
  the command line. Three more things belong to the interpreter the module runs in.
  The codec of the locale, with which \<^verbatim>\<open>io.open\<close> reads and writes text: \<open>decode\<close> turns the
  bytes of a file into text and \<open>encode\<close> text into bytes, and each yields nothing where
  Python raises UnicodeDecodeError or UnicodeEncodeError. And the hash table of a dict:
  \<open>slot keys key\<close> is the place of \<open>key\<close> in the table of a dict that received the keys
  \<open>keys\<close> in this order; a dict is iterated by the places of its keys.
\<close>

record env =
  TRANSCRIPT_DIR :: string
  JOB_TEMPLATES_DIR :: string
  JOB_INSTANCES_DIR :: string
  JOB_HOSTNAME :: string
  getcwd :: string
  run :: "string \<Rightarrow> string \<Rightarrow> cmd_result"
  decode :: "string \<Rightarrow> string option"
  encode :: "string \<Rightarrow> string option"
  slot :: "string list \<Rightarrow> string \<Rightarrow> nat"

section \<open>Names of templates, instances and transcripts\<close>

definition get_job_template_filename :: "string \<Rightarrow> string" where
  "get_job_template_filename job_name = job_name @ ''.conf''"

definition get_job_template_filepath :: "env \<Rightarrow> string \<Rightarrow> string" where
  "get_job_template_filepath e job_name =
     path_join (JOB_TEMPLATES_DIR e) (get_job_template_filename job_name)"

text \<open>\<^verbatim>\<open>binascii.b2a_hex\<close>: two lower-case hexadecimal digits for every byte.\<close>

definition hexdigit :: "nat \<Rightarrow> char" where
  "hexdigit n = ''0123456789abcdef'' ! (n mod 16)"

definition b2a_hex :: "8 word list \<Rightarrow> string" where
  "b2a_hex bs = concat (map (\<lambda>b. [hexdigit (unat b div 16), hexdigit (unat b mod 16)]) bs)"

text \<open>\<^verbatim>\<open>create_job_id\<close>; its argument is what \<^verbatim>\<open>os.urandom(6)\<close> returned.\<close>

definition create_job_id :: "8 word list \<Rightarrow> string" where
  "create_job_id urandom6 = b2a_hex urandom6"

definition get_job_instance :: "string \<Rightarrow> string \<Rightarrow> string" where
  "get_job_instance job_name job_id = job_name @ ''_'' @ job_id"

definition get_job_instance_filename :: "string \<Rightarrow> string \<Rightarrow> string" where
  "get_job_instance_filename job_name job_id = get_job_instance job_name job_id @ ''.conf''"

definition get_job_instance_logname :: "string \<Rightarrow> string \<Rightarrow> string" where
  "get_job_instance_logname job_name job_id = get_job_instance job_name job_id @ ''.log''"

definition get_job_instance_logpath :: "env \<Rightarrow> string \<Rightarrow> string \<Rightarrow> string" where
  "get_job_instance_logpath e job_name job_id =
     path_join (TRANSCRIPT_DIR e) (get_job_instance_logname job_name job_id)"

definition get_job_instance_filepath :: "env \<Rightarrow> string \<Rightarrow> string \<Rightarrow> string" where
  "get_job_instance_filepath e job_name job_id =
     (let abs_instances_dir = abspath (getcwd e) (JOB_INSTANCES_DIR e)
      in path_join abs_instances_dir (get_job_instance_filename job_name job_id))"

text \<open>
  \<^verbatim>\<open>extract_job_id\<close>: \<^verbatim>\<open>re.search(r'.+_(.+).conf', filepath)\<close>, then \<^verbatim>\<open>matcher.group(1)\<close>,
  which raises AttributeError on the \<^verbatim>\<open>None\<close> of a failed search.
\<close>

text \<open>The end of the pattern, behind the group.\<close>

definition conf_tail :: "tok list" where
  "conf_tail =
     [One Dot, One (Lit CHR ''c''), One (Lit CHR ''o''), One (Lit CHR ''n''), One (Lit CHR ''f'')]"

definition job_id_pattern :: "tok list" where
  "job_id_pattern =
     Plus Dot # One (Lit CHR ''_'') # GroupPlus Dot # conf_tail"

definition extract_job_id :: "string \<Rightarrow> py_error + string" where
  "extract_job_id filepath =
     (case re_search job_id_pattern filepath of
        None \<Rightarrow> Inl AttributeError
      | Some [] \<Rightarrow> Inl IndexError
      | Some (g # gs) \<Rightarrow> Inr g)"

text \<open>\<^verbatim>\<open>extract_process_id\<close>: \<^verbatim>\<open>re.search(r'pid=(\d+)', cmd_string)\<close>, \<open>-1\<close> without a match.\<close>

definition pid_pattern :: "tok list" where
  "pid_pattern =
     [One (Lit CHR ''p''), One (Lit CHR ''i''), One (Lit CHR ''d''), One (Lit CHR ''=''),
      GroupPlus Digit]"

definition extract_process_id :: "string \<Rightarrow> int" where
  "extract_process_id cmd_string =
     (case re_search pid_pattern cmd_string of
        Some (g # gs) \<Rightarrow> int_of_digits g
      | _ \<Rightarrow> - 1)"

section \<open>JSON values, requests and responses\<close>

text \<open>
  What \<^verbatim>\<open>request.json\<close> yields. An object is the Python dict it was loaded into, written
  as the list of its items in the order in which the dict received its keys.
\<close>

datatype json =
    JNull
  | JBool bool
  | JNum int
  | JStr string
  | JArr "json list"
  | JObj "(string \<times> json) list"

text \<open>Python's truth value of a loaded JSON value.\<close>

fun truthy :: "json \<Rightarrow> bool" where
  "truthy JNull = False"
| "truthy (JBool b) = b"
| "truthy (JNum n) = (n \<noteq> 0)"
| "truthy (JStr s) = (s \<noteq> [])"
| "truthy (JArr xs) = (xs \<noteq> [])"
| "truthy (JObj kvs) = (kvs \<noteq> [])"

text \<open>
  \<^verbatim>\<open>d[key]\<close> with a string key: KeyError on a dict without the key, TypeError on a value
  that is no dict. \<^verbatim>\<open>d[key] = value\<close>: the value of a present key is replaced, a new
  key is the last the dict received. \<^verbatim>\<open>d.items()\<close> yields the items by the places of
  their keys in the hash table, whatever the order in which the dict received them.
\<close>

fun getitem :: "json \<Rightarrow> string \<Rightarrow> py_error + json" where
  "getitem (JObj kvs) key =
     (case map_of kvs key of None \<Rightarrow> Inl (KeyError key) | Some v \<Rightarrow> Inr v)"
| "getitem j key = Inl TypeError"

fun setitem :: "json \<Rightarrow> string \<Rightarrow> json \<Rightarrow> py_error + json" where
  "setitem (JObj kvs) key v = Inr (JObj (AList.update key v kvs))"
| "setitem j key v = Inl TypeError"

definition dict_items :: "env \<Rightarrow> (string \<times> 'a) list \<Rightarrow> (string \<times> 'a) list" where
  "dict_items e kvs = sort_key (\<lambda>(k, v). slot e (map fst kvs) k) kvs"

text \<open>
  The part of a Flask request the handlers read: the Content-Type header, which may be
  absent, and \<^verbatim>\<open>request.json\<close>, which raises BadRequest on a body that is no JSON text.
\<close>

record request =
  content_type :: "string option"
  json_body :: "json option"

datatype url = Url_for string "(string \<times> string) list"

datatype body = Text string | Json json

record response =
  status :: nat
  body :: body
  mimetype :: string
  link :: "url option"

section \<open>The world: files, remote commands, log\<close>

text \<open>
  The file store is a flat list of absolute paths with their nodes, in the order in
  which \<^verbatim>\<open>os.listdir\<close> yields them; a file has its content, which is bytes, and its
  modification time. A file can be created where a directory of the store holds its
  path. Permissions and disk space are not represented.
\<close>

datatype node = File string nat | Dir

datatype log_level = INFO | WARN

datatype log_arg = S string | I int | B bool | J json

record world =
  files :: "(string \<times> node) list"
  commands :: "string list"
  logged :: "(log_level \<times> string \<times> log_arg list) list"
  clock :: nat

definition log :: "log_level \<Rightarrow> string \<Rightarrow> log_arg list \<Rightarrow> world \<Rightarrow> world" where
  "log level fmt args w = w\<lparr>logged := logged w @ [(level, fmt, args)]\<rparr>"

definition lookup :: "env \<Rightarrow> world \<Rightarrow> string \<Rightarrow> node option" where
  "lookup e w p = map_of (files w) (abspath (getcwd e) p)"

definition path_exists :: "env \<Rightarrow> world \<Rightarrow> string \<Rightarrow> bool" where
  "path_exists e w p = (lookup e w p \<noteq> None)"

definition isfile :: "env \<Rightarrow> world \<Rightarrow> string \<Rightarrow> bool" where
  "isfile e w p = (case lookup e w p of Some (File c t) \<Rightarrow> True | _ \<Rightarrow> False)"

text \<open>\<^verbatim>\<open>os.path.getmtime\<close>; the module calls it on listed files only.\<close>

definition getmtime :: "env \<Rightarrow> world \<Rightarrow> string \<Rightarrow> nat" where
  "getmtime e w p = (case lookup e w p of Some (File c t) \<Rightarrow> t | _ \<Rightarrow> 0)"

text \<open>The name of an entry that lies directly in the directory \<open>d\<close>.\<close>

definition child_name :: "string \<Rightarrow> string \<Rightarrow> string option" where
  "child_name d p =
     (let pre = (if endswith d ''/'' then d else d @ ''/''); name = drop (length pre) p in
      if startswith p pre \<and> name \<noteq> [] \<and> CHR ''/'' \<notin> set name then Some name else None)"

definition listdir :: "env \<Rightarrow> world \<Rightarrow> string \<Rightarrow> py_error + string list" where
  "listdir e w d =
     (case lookup e w d of
        None \<Rightarrow> Inl (OSError ENOENT d)
      | Some (File c t) \<Rightarrow> Inl (OSError ENOTDIR d)
      | Some Dir \<Rightarrow> Inr (List.map_filter (child_name (abspath (getcwd e) d)) (map fst (files w))))"

text \<open>
  A file opened for reading: its data and the position, which is 0 after the open.
\<close>

record file_handle =
  data :: string
  pos :: nat

definition open_r :: "env \<Rightarrow> world \<Rightarrow> string \<Rightarrow> py_error + file_handle" where
  "open_r e w p =
     (case lookup e w p of
        None \<Rightarrow> Inl (IOError ENOENT p)
      | Some Dir \<Rightarrow> Inl (IOError EISDIR p)
      | Some (File c t) \<Rightarrow> Inr \<lparr>data = c, pos = 0\<rparr>)"

definition tell :: "file_handle \<Rightarrow> int" where
  "tell fh = int (pos fh)"

definition seek :: "file_handle \<Rightarrow> int \<Rightarrow> file_handle" where
  "seek fh offset = fh\<lparr>pos := nat offset\<rparr>"

definition read :: "file_handle \<Rightarrow> string" where
  "read fh = drop (pos fh) (data fh)"

text \<open>
  A path lies below \<open>d\<close> when it continues \<open>d\<close> behind a slash; a regular file above a path
  is what makes the system calls fail with ENOTDIR.
\<close>

definition inside :: "string \<Rightarrow> string \<Rightarrow> bool" where
  "inside d p =
     (let pre = (if endswith d ''/'' then d else d @ ''/'')
      in startswith p pre \<and> drop (length pre) p \<noteq> [])"

definition file_above :: "(string \<times> node) list \<Rightarrow> string \<Rightarrow> bool" where
  "file_above fs p = list_ex (\<lambda>(f, n). n \<noteq> Dir \<and> inside f p) fs"

definition in_directory :: "(string \<times> node) list \<Rightarrow> string \<Rightarrow> bool" where
  "in_directory fs p = list_ex (\<lambda>(d, n). n = Dir \<and> child_name d p \<noteq> None) fs"

text \<open>
  Opening for writing creates the file or empties it. It fails on a directory, and
  where no directory holds the path: with ENOTDIR below a regular file, with ENOENT
  otherwise.
\<close>

definition open_w :: "env \<Rightarrow> world \<Rightarrow> string \<Rightarrow> py_error + world" where
  "open_w e w p =
     (case lookup e w p of
        Some Dir \<Rightarrow> Inl (IOError EISDIR p)
      | _ \<Rightarrow>
          if in_directory (files w) (abspath (getcwd e) p) then
            Inr (w\<lparr>files := AList.update (abspath (getcwd e) p) (File [] (clock w)) (files w)\<rparr>)
          else if file_above (files w) (abspath (getcwd e) p) then Inl (IOError ENOTDIR p)
          else Inl (IOError ENOENT p))"

definition write_file :: "env \<Rightarrow> world \<Rightarrow> string \<Rightarrow> string \<Rightarrow> world" where
  "write_file e w p text =
     w\<lparr>files := AList.update (abspath (getcwd e) p) (File text (clock w)) (files w)\<rparr>"

text \<open>
  \<^verbatim>\<open>os.makedirs\<close> makes the directory, and on its way the missing ones above it, which the
  store does not list. It fails below a regular file, and on a path that exists.
\<close>

definition makedirs :: "env \<Rightarrow> world \<Rightarrow> string \<Rightarrow> py_error + world" where
  "makedirs e w d =
     (if file_above (files w) (abspath (getcwd e) d) then Inl (OSError ENOTDIR d)
      else case lookup e w d of
             Some n \<Rightarrow> Inl (OSError EEXIST d)
           | None \<Rightarrow> Inr (w\<lparr>files := AList.update (abspath (getcwd e) d) Dir (files w)\<rparr>))"

text \<open>
  A text file read with \<^verbatim>\<open>io.open(path, 'r')\<close>: the bytes of the file are decoded with the
  codec of the locale, and the text is iterated line by line, every line with its
  terminator, the terminators CR and CRLF read as LF (universal newlines). The model
  decodes the file as a whole before the first line is handed out.
\<close>

definition read_text :: "env \<Rightarrow> file_handle \<Rightarrow> py_error + string" where
  "read_text e fh =
     (case decode e (read fh) of None \<Rightarrow> Inl UnicodeDecodeError | Some text \<Rightarrow> Inr text)"

fun io_lines_acc :: "string \<Rightarrow> string \<Rightarrow> string list" where
  "io_lines_acc acc [] = (if acc = [] then [] else [rev acc])"
| "io_lines_acc acc (c # cs) =
     (if c = CHR 0x0A then rev (CHR 0x0A # acc) # io_lines_acc [] cs
      else if c = CHR 0x0D then
        (case cs of
           d # ds \<Rightarrow> if d = CHR 0x0A then rev (CHR 0x0A # acc) # io_lines_acc [] ds
                     else rev (CHR 0x0A # acc) # io_lines_acc [] cs
         | [] \<Rightarrow> rev (CHR 0x0A # acc) # io_lines_acc [] cs)
      else io_lines_acc (c # acc) cs)"

definition io_lines :: "string \<Rightarrow> string list" where
  "io_lines s = io_lines_acc [] s"

text \<open>The remote execution: the command line is recorded, the result is the supervisor's.\<close>

definition remote_run :: "env \<Rightarrow> string \<Rightarrow> world \<Rightarrow> cmd_result \<times> world" where
  "remote_run e cmd w = (run e (JOB_HOSTNAME e) cmd, w\<lparr>commands := commands w @ [cmd]\<rparr>)"

section \<open>The functions of jobmonitor.py\<close>

definition exists_job_template :: "env \<Rightarrow> world \<Rightarrow> string \<Rightarrow> bool" where
  "exists_job_template e w job_name = path_exists e w (get_job_template_filepath e job_name)"

definition ensure_job_instance_directory :: "env \<Rightarrow> world \<Rightarrow> py_error + world" where
  "ensure_job_instance_directory e w =
     (if \<not> path_exists e w (JOB_INSTANCES_DIR e) then makedirs e w (JOB_INSTANCES_DIR e)
      else Inr w)"

definition exists_job_instance :: "env \<Rightarrow> world \<Rightarrow> string \<Rightarrow> string \<Rightarrow> bool" where
  "exists_job_instance e w job_name job_id =
     path_exists e w (get_job_instance_filepath e job_name job_id)"

text \<open>
  \<^verbatim>\<open>get_last_lines\<close>. The size of the file is taken from \<^verbatim>\<open>fh.tell()\<close> right after the
  open.
\<close>

definition get_last_lines :: "env \<Rightarrow> world \<Rightarrow> string \<Rightarrow> int \<Rightarrow> py_error + string list" where
  "get_last_lines e w filepath nr_lines =
     (if path_exists e w filepath then
        (case open_r e w filepath of
           Inl err \<Rightarrow> Inl err
         | Inr fh \<Rightarrow>
             (let file_size = tell fh;
                  fh' = seek fh (max (file_size - 4 * 1024) 0)
              in Inr (slice_from_neg (splitlines (read fh')) nr_lines)))
      else Inr [])"

text \<open>\<^verbatim>\<open>get_job_status\<close>: one remote status command, and what is read off its result.\<close>

definition get_job_status :: "env \<Rightarrow> string \<Rightarrow> string \<Rightarrow> world \<Rightarrow> (bool \<times> int) \<times> world" where
  "get_job_status e job_name job_filepath w =
     (let (cmd_result, w1) = remote_run e (''zdaemon -C'' @ job_filepath @ '' status'') w;
          w2 = (if return_code cmd_result > 0
                then log WARN ''Problem while checking job status: %s'' [S (stdout cmd_result)] w1
                else w1);
          job_active = (succeeded cmd_result \<and> py_in ''program running'' (stdout cmd_result));
          job_process_id = (if job_active then extract_process_id (stdout cmd_result) else - 1);
          w3 = log INFO ''%s running? %s [pid=%d]'' [S job_name, B job_active, I job_process_id] w2
      in ((job_active, job_process_id), w3))"

text \<open>
  \<^verbatim>\<open>get_latest_job_instance\<close>: the listed regular files whose base name contains the job
  name and whose extension is \<^verbatim>\<open>.conf\<close>, sorted by modification time, latest first; the
  sort is stable, so files of one modification time stay in the order of the listing.
\<close>

definition get_latest_job_instance :: "env \<Rightarrow> world \<Rightarrow> string \<Rightarrow> py_error + string option" where
  "get_latest_job_instance e w job_name =
     (let instances_dir = abspath (getcwd e) (JOB_INSTANCES_DIR e) in
      case listdir e w instances_dir of
        Inl err \<Rightarrow> Inl err
      | Inr filenames \<Rightarrow>
          (let inst_files =
                 map (path_join instances_dir)
                   (filter (\<lambda>filename.
                      (let (basename, ext) = splitext filename;
                           full_path = path_join instances_dir filename
                       in isfile e w full_path \<and> py_in job_name basename \<and> ext = ''.conf''))
                    filenames)
           in (case sort_key (\<lambda>f. - int (getmtime e w f)) inst_files of
                 [] \<Rightarrow> Inr None
               | latest # older \<Rightarrow> Inr (Some latest))))"

text \<open>
  The inner loop of \<^verbatim>\<open>create_jobconf\<close>: one \<^verbatim>\<open>line.replace('$'+key, value)\<close> after the
  other, over the items of the parameters; a value that is no string makes \<^verbatim>\<open>replace\<close>
  raise TypeError. The outer loop writes every substituted line to the instance file,
  a text file too: the line is encoded with the codec of the locale.
\<close>

fun substitute :: "(string \<times> json) list \<Rightarrow> string \<Rightarrow> py_error + string" where
  "substitute [] line = Inr line"
| "substitute ((key, JStr v) # items) line = substitute items (py_replace (CHR ''$'' # key) v line)"
| "substitute ((key, j) # items) line = Inl TypeError"

fun write_lines ::
  "env \<Rightarrow> (string \<times> json) list \<Rightarrow> string list \<Rightarrow> string \<Rightarrow> py_error option \<times> string" where
  "write_lines e items [] written = (None, written)"
| "write_lines e items (line # lines) written =
     (case substitute items line of
        Inl err \<Rightarrow> (Some err, written)
      | Inr line' \<Rightarrow>
          (case encode e line' of
             None \<Rightarrow> (Some UnicodeEncodeError, written)
           | Some bytes \<Rightarrow> write_lines e items lines (written @ bytes)))"

text \<open>\<^verbatim>\<open>params.items()\<close>, in the order in which the dict is iterated.\<close>

definition items_of :: "env \<Rightarrow> json \<Rightarrow> (string \<times> json) list" where
  "items_of e j = (case j of JObj kvs \<Rightarrow> dict_items e kvs | _ \<Rightarrow> [])"

text \<open>
  \<^verbatim>\<open>create_jobconf\<close>. The instance file is opened for writing before the parameters are
  extended and before the template is opened; what was written stays when a later step
  raises.
\<close>

definition create_jobconf :: "env \<Rightarrow> string \<Rightarrow> string \<Rightarrow> json \<Rightarrow> world \<Rightarrow> (py_error + string) \<times> world" where
  "create_jobconf e job_id job_name params w =
     (case ensure_job_instance_directory e w of
        Inl err \<Rightarrow> (Inl err, w)
      | Inr w1 \<Rightarrow>
          (let file_path = get_job_instance_filepath e job_name job_id
           in case open_w e w1 file_path of
                Inl err \<Rightarrow> (Inl err, w1)
              | Inr w2 \<Rightarrow>
                  (case setitem params ''transcript_file''
                          (JStr (get_job_instance_logpath e job_name job_id)) of
                     Inl err \<Rightarrow> (Inl err, w2)
                   | Inr params' \<Rightarrow>
                       (case open_r e w2 (get_job_template_filepath e job_name) of
                          Inl err \<Rightarrow> (Inl err, w2)
                        | Inr template \<Rightarrow>
                            (case read_text e template of
                               Inl err \<Rightarrow> (Inl err, w2)
                             | Inr text \<Rightarrow>
                                 (case write_lines e (items_of e params') (io_lines text) [] of
                                    (Some err, written) \<Rightarrow>
                                      (Inl err, write_file e w2 file_path written)
                                  | (None, written) \<Rightarrow>
                                      (Inr (abspath (getcwd e) file_path),
                                       write_file e w2 file_path written)))))))"


section \<open>The HTTP handlers\<close>

text \<open>
  A handler returns its response, or the exception that leaves it, and the world it
  leaves behind. \<^verbatim>\<open>if latest_job_filepath\<close> holds for a path that is neither \<^verbatim>\<open>None\<close> nor
  empty.
\<close>

definition found :: "string option \<Rightarrow> bool" where
  "found latest = (case latest of None \<Rightarrow> False | Some p \<Rightarrow> p \<noteq> [])"



text \<open>
  \<^verbatim>\<open>request.json['parameters'] if request.json['parameters'] else {}\<close>, line 148 of the
  module.
\<close>

definition job_params_of :: "request \<Rightarrow> py_error + json" where
  "job_params_of req =
     (case json_body req of
        None \<Rightarrow> Inl BadRequest
      | Some j \<Rightarrow>
          (case getitem j ''parameters'' of
             Inl err \<Rightarrow> Inl err
           | Inr v \<Rightarrow> Inr (if truthy v then v else JObj [])))"

text \<open>
  The \<^verbatim>\<open>else\<close> branch of \<^verbatim>\<open>start_job_instance\<close>, taken when no active instance was found:
  a new id, the parameters, the instance file, the remote start command, the response.
\<close>

definition start_new_instance ::
  "env \<Rightarrow> 8 word list \<Rightarrow> request \<Rightarrow> string \<Rightarrow> world \<Rightarrow> (py_error + response) \<times> world" where
  "start_new_instance e urandom6 req job_name w =
     (let job_id = create_job_id urandom6 in
      case job_params_of req of
        Inl err \<Rightarrow> (Inl err, w)
      | Inr job_params \<Rightarrow>
          (let w1 = log INFO ''preparing job %s with params: %s'' [S job_name, J job_params] w in
           case create_jobconf e job_id job_name job_params w1 of
             (Inl err, w2) \<Rightarrow> (Inl err, w2)
           | (Inr job_filepath, w2) \<Rightarrow>
               (let w3 = log INFO ''trying to start job %s ...'' [S job_name] w2;
                    (cmd_result, w4) = remote_run e (''zdaemon -C'' @ job_filepath @ '' start'') w3;
                    w5 = log INFO ''Started %s [return code: %d]''
                           [S job_name, I (return_code cmd_result)] w4
                in if succeeded cmd_result \<and> py_in ''daemon process started'' (stdout cmd_result) then
                     (let job_process_id = extract_process_id (stdout cmd_result) in
                      (Inr \<lparr>status = 201,
                            body = Json (JObj
                              [(''status'', JStr ''STARTED''),
                               (''message'', JStr (''job '' @ [CHR 0x27] @ job_name @ [CHR 0x27]
                                  @ '' started with process id='' @ str_int job_process_id))]),
                            mimetype = ''application/json'',
                            link = Some (Url_for ''get_job_by_id''
                              [(''job_name'', job_name), (''job_id'', job_id)])\<rparr>, w5))
                   else
                     (Inr \<lparr>status = 500,
                           body = Json (JObj
                             [(''status'', JStr ''FINISHED''),
                              (''result'', JObj [(''ok'', JBool False),
                                 (''message'', JStr (stdout cmd_result)),
                                 (''exit_code'', JNum (return_code cmd_result))])]),
                           mimetype = ''application/json'', link = None\<rparr>, w5))))"

text \<open>
  \<^verbatim>\<open>start_job_instance\<close>; \<open>urandom6\<close> is what \<^verbatim>\<open>os.urandom(6)\<close> returns when the handler
  asks for it.
\<close>

definition start_job_instance ::
  "env \<Rightarrow> 8 word list \<Rightarrow> request \<Rightarrow> string \<Rightarrow> world \<Rightarrow> (py_error + response) \<times> world" where
  "start_job_instance e urandom6 req job_name w =
     (case content_type req of
        None \<Rightarrow> (Inl (KeyError ''Content-Type''), w)
      | Some ct \<Rightarrow>
          (if ct \<noteq> ''application/json'' then
             (Inr \<lparr>status = 415,
                   body = Text (''Only '' @ [CHR 0x27] @ ''application/json'' @ [CHR 0x27]
                     @ '' currently supported as media type''),
                   mimetype = ''text/html'', link = None\<rparr>, w)
           else
             (case get_latest_job_instance e w job_name of
                Inl err \<Rightarrow> (Inl err, w)
              | Inr None \<Rightarrow> start_new_instance e urandom6 req job_name w
              | Inr (Some latest_job_filepath) \<Rightarrow>
                  (if found (Some latest_job_filepath) then
                     (let w1 = log INFO ''Found job instance, check if still running...'' [] w;
                          ((job_active, job_process_id), w2) =
                             get_job_status e job_name latest_job_filepath w1
                      in if job_active then
                           (case extract_job_id latest_job_filepath of
                              Inl err \<Rightarrow> (Inl err, w2)
                            | Inr job_id \<Rightarrow>
                                (Inr \<lparr>status = 303,
                                      body = Json (JObj
                                        [(''status'', JStr ''RUNNING''),
                                         (''message'', JStr (''job '' @ [CHR 0x27] @ job_name
                                            @ [CHR 0x27] @ '' is still running with process id ''
                                            @ str_int job_process_id))]),
                                      mimetype = ''application/json'',
                                      link = Some (Url_for ''get_job_by_id''
                                        [(''job_name'', job_name), (''job_id'', job_id)])\<rparr>, w2))
                         else start_new_instance e urandom6 req job_name w2)
                   else start_new_instance e urandom6 req job_name w))))"

text \<open>\<^verbatim>\<open>stop_job_instance\<close>.\<close>

definition stop_job_instance ::
  "env \<Rightarrow> string \<Rightarrow> string \<Rightarrow> world \<Rightarrow> (py_error + response) \<times> world" where
  "stop_job_instance e job_name job_id w =
     (if \<not> exists_job_instance e w job_name job_id then
        (Inr \<lparr>status = 404,
              body = Text (''No job instance '' @ [CHR 0x27] @ job_id @ [CHR 0x27]
                @ '' found for '' @ [CHR 0x27] @ job_name @ [CHR 0x27]),
              mimetype = ''text/html'', link = None\<rparr>, w)
      else
        (let job_fullpath = get_job_instance_filepath e job_name job_id;
             ((job_active, job_process_id), w1) = get_job_status e job_name job_fullpath w
         in if \<not> job_active then
              (Inr \<lparr>status = 403,
                    body = Json (JObj [(''status'', JStr ''FINISHED''),
                                       (''message'', JStr ''job has already finished'')]),
                    mimetype = ''application/json'', link = None\<rparr>, w1)
            else
              (let (cmd_result, w2) = remote_run e (''zdaemon -C'' @ job_fullpath @ '' stop'') w1;
                   w3 = log INFO ''Return code from stop job %s: %d''
                          [S job_name, I (return_code cmd_result)] w2
               in if succeeded cmd_result \<and> py_in ''daemon process stopped'' (stdout cmd_result) then
                    (Inr \<lparr>status = 200,
                          body = Json (JObj
                            [(''status'', JStr ''FINISHED''),
                             (''result'', JObj [(''ok'', JBool True),
                                (''message'', JStr (''job '' @ [CHR 0x27] @ job_name @ [CHR 0x27]
                                   @ '' stopped with process id='' @ str_int job_process_id))])]),
                          mimetype = ''application/json'', link = None\<rparr>, w3)
                  else
                    (Inr \<lparr>status = 500,
                          body = Json (JObj
                            [(''status'', JStr ''ERROR''),
                             (''result'', JObj [(''ok'', JBool False),
                                (''message'', JStr (stdout cmd_result))])]),
                          mimetype = ''application/json'', link = None\<rparr>, w3))))"

section \<open>The specification's tail and substitution\<close>

subsection \<open>The tail\<close>

text \<open>
  The Log Tailer as the specification words it: the last \<open>n\<close> lines of the window made
  of the last 4 KiB of the file. It is the reference \<^verbatim>\<open>get_last_lines\<close> is compared with.
\<close>

definition tail_spec :: "string \<Rightarrow> int \<Rightarrow> string list" where
  "tail_spec content n =
     slice_from_neg (splitlines (drop (length content - 4 * 1024) content)) n"

subsection \<open>The substitution\<close>





section \<open>A concrete deployment\<close>

text \<open>
  The default configuration of the module, run from \<^verbatim>\<open>/srv\<close>, with a supervisor that
  reports every job as not running, the ASCII codec of the C locale, and a dict that is
  iterated in the order in which it received its keys.
\<close>

definition ascii :: "string \<Rightarrow> string option" where
  "ascii s = (if list_all (\<lambda>c. (of_char c :: nat) < 128) s then Some s else None)"

definition example_env :: env where
  "example_env =
     \<lparr>TRANSCRIPT_DIR = ''/tmp'', JOB_TEMPLATES_DIR = ''templates'',
      JOB_INSTANCES_DIR = ''instances'', JOB_HOSTNAME = ''localhost'', getcwd = ''/srv'',
      run = (\<lambda>host cmd. \<lparr>return_code = 3, stdout = ''daemon manager not running''\<rparr>),
      decode = ascii, encode = ascii, slot = (\<lambda>keys key. 0)\<rparr>"

text \<open>
  A store with the template \<^verbatim>\<open>job\<close>, one instance of it and its transcript, and a
  supervisor that reports every job as running.
\<close>

definition example_world :: world where
  "example_world =
     \<lparr>files =
        [(''/srv/instances'', Dir), (''/srv/templates'', Dir),
         (''/srv/templates/job.conf'',
            File (''cmd=run --x=$x'' @ [CHR 0x0A] @ ''transcript=$transcript_file'') 5),
         (''/srv/instances/job_010203040506.conf'',
            File (''cmd=run --x=5'' @ [CHR 0x0A] @ ''transcript=/tmp/job_010203040506.log'') 7),
         (''/tmp/job_010203040506.log'', File (''one'' @ [CHR 0x0A] @ ''two'' @ [CHR 0x0A]) 8)],
      commands = [], logged = [], clock = 10\<rparr>"

definition running_env :: env where
  "running_env =
     example_env\<lparr>run := (\<lambda>host cmd.
       \<lparr>return_code = 0, stdout = ''program running, pid=4321''\<rparr>)\<rparr>"


text \<open>A store whose only instance belongs to a job the name of which ends in a line feed.\<close>

definition newline_world :: world where
  "newline_world =
     \<lparr>files =
        [(''/srv/instances'', Dir), (''/srv/templates'', Dir),
         (''/srv/instances/a'' @ [CHR 0x0A] @ ''_010203040506.conf'', File ''cmd=run'' 7)],
      commands = [], logged = [], clock = 10\<rparr>"



text \<open>Two transcripts: one of two short lines, one of a short line and a line of 4096 bytes.\<close>

definition short_log_world :: world where
  "short_log_world =
     \<lparr>files = [(''/tmp/job_010203040506.log'',
                 File (''one'' @ [CHR 0x0A] @ ''two'' @ [CHR 0x0A]) 1)],
      commands = [], logged = [], clock = 2\<rparr>"

definition big_log :: string where
  "big_log = ''A'' @ [CHR 0x0A] @ replicate 4096 CHR ''b''"

definition big_log_world :: world where
  "big_log_world =
     \<lparr>files = [(''/tmp/job_010203040506.log'', File big_log 1)],
      commands = [], logged = [], clock = 2\<rparr>"

text \<open>
  A supervisor whose status command prints \<^verbatim>\<open>program running\<close> and ends with the exit
  status 1.
\<close>

definition failing_env :: env where
  "failing_env =
     example_env\<lparr>run := (\<lambda>host cmd.
       \<lparr>return_code = 1, stdout = ''program running, pid=4321''\<rparr>)\<rparr>"

section \<open>Properties\<close>

subsection \<open>Strings and paths\<close>


lemma hexdigit_in: "hexdigit n \<in> set ''0123456789abcdef''"
  unfolding hexdigit_def by (rule nth_mem) simp

lemma b2a_hex_chars: "set (b2a_hex bs) \<subseteq> set ''0123456789abcdef''"
  unfolding b2a_hex_def using hexdigit_in by (induction bs) auto

lemma b2a_hex_length: "length (b2a_hex bs) = 2 * length bs"
  unfolding b2a_hex_def by (induction bs) auto

lemma path_join_cases:
  "path_join a b = b \<and> startswith b ''/'' \<or> path_join a b = a @ b \<and> \<not> startswith b ''/''
   \<or> path_join a b = a @ ''/'' @ b \<and> \<not> startswith b ''/''"
  by (simp add: path_join_def)

lemma abspath_nonempty: "isabs cwd \<Longrightarrow> abspath cwd p \<noteq> []"
  by (cases cwd) (auto simp: abspath_def isabs_def path_join_def)

lemma set_path_join: "set (path_join a b) \<subseteq> set a \<union> set b \<union> {CHR ''/''}"
  by (auto simp: path_join_def)

lemma set_abspath: "set (abspath cwd p) \<subseteq> set cwd \<union> set p \<union> {CHR ''/''}"
  using set_path_join[of cwd p] by (auto simp: abspath_def)

text \<open>
  An instance path ends in an underscore, the id and \<^verbatim>\<open>.conf\<close>; what stands before is
  not empty and made of the characters of the directories and the job name.
\<close>

lemma instance_filepath_shape:
  assumes "isabs (getcwd e)"
  shows "\<exists>pre. get_job_instance_filepath e job_name job_id = pre @ ''_'' @ job_id @ ''.conf''
           \<and> pre \<noteq> []
           \<and> set pre \<subseteq> set (getcwd e) \<union> set (JOB_INSTANCES_DIR e) \<union> set job_name \<union> {CHR ''/''}"
proof -
  let ?d = "abspath (getcwd e) (JOB_INSTANCES_DIR e)"
  let ?b = "job_name @ ''_'' @ job_id @ ''.conf''"
  have d: "?d \<noteq> []" using assms by (rule abspath_nonempty)
  have sd: "set ?d \<subseteq> set (getcwd e) \<union> set (JOB_INSTANCES_DIR e) \<union> {CHR ''/''}"
    by (rule set_abspath)
  have fp: "get_job_instance_filepath e job_name job_id = path_join ?d ?b"
    by (simp add: get_job_instance_filepath_def get_job_instance_filename_def get_job_instance_def)
  consider (abs) "path_join ?d ?b = ?b" "startswith ?b ''/''"
    | (cat) "path_join ?d ?b = ?d @ ?b" | (sep) "path_join ?d ?b = ?d @ ''/'' @ ?b"
    using path_join_cases[of ?d ?b] by blast
  then show ?thesis
  proof cases
    case abs
    then have "job_name \<noteq> []" by (cases job_name) auto
    with abs fp show ?thesis by (intro exI[of _ job_name]) auto
  next
    case cat
    with fp d sd show ?thesis by (intro exI[of _ "?d @ job_name"]) auto
  next
    case sep
    with fp d sd show ?thesis by (intro exI[of _ "?d @ ''/'' @ job_name"]) auto
  qed
qed

subsection \<open>The pattern of an instance path\<close>

lemma backtrack_pick:
  "0 < k \<Longrightarrow> k \<le> n \<Longrightarrow> f k = Some r \<Longrightarrow> (\<And>i. k < i \<Longrightarrow> i \<le> n \<Longrightarrow> f i = None)
   \<Longrightarrow> backtrack f n = Some r"
proof (induction n)
  case 0
  then show ?case by simp
next
  case (Suc n)
  show ?case
  proof (cases "k = Suc n")
    case True
    with Suc.prems show ?thesis by simp
  next
    case False
    with Suc.prems have "k \<le> n" by simp
    moreover have "f (Suc n) = None" using Suc.prems False by simp
    ultimately show ?thesis using Suc by simp
  qed
qed

lemma takeWhile_whole: "(\<And>c. c \<in> set s \<Longrightarrow> P c) \<Longrightarrow> length (takeWhile P s) = length s"
  by (induction s) auto

lemma conf_tail_short: "length s < 5 \<Longrightarrow> match_here conf_tail s = None"
  by (auto simp: conf_tail_def split: list.splits)

lemma conf_tail_conf: "match_here conf_tail ''.conf'' = Some []"
  by (simp add: conf_tail_def)

text \<open>
  The group takes the whole id: with more characters there are fewer than five left
  for \<^verbatim>\<open>.conf\<close>.
\<close>

lemma group_takes_id:
  assumes "CHR 0x0A \<notin> set jid" and "jid \<noteq> []"
  shows "match_here (GroupPlus Dot # conf_tail) (jid @ ''.conf'') = Some [jid]"
proof -
  let ?s = "jid @ ''.conf''"
  let ?f = "\<lambda>i. map_option (\<lambda>gs. take i ?s # gs) (match_here conf_tail (drop i ?s))"
  have len: "length (takeWhile (accepts Dot) ?s) = length ?s"
    using assms by (intro takeWhile_whole) auto
  have "backtrack ?f (length ?s) = Some [jid]"
  proof (rule backtrack_pick[where k = "length jid"])
    show "0 < length jid" using assms by simp
    show "length jid \<le> length ?s" by simp
    show "?f (length jid) = Some [jid]" by (simp add: conf_tail_conf)
  next
    fix i assume "length jid < i" "i \<le> length ?s"
    then have "length (drop i ?s) < 5" by simp
    then show "?f i = None" by (simp only: conf_tail_short option.map)
  qed
  then show ?thesis by (simp only: match_here.simps len)
qed

lemma no_underscore: "CHR ''_'' \<notin> set s \<Longrightarrow> match_here (One (Lit CHR ''_'') # ts) s = None"
  by (cases s) auto

text \<open>
  The first repetition stops before the last underscore of the path, the one before the
  id, when no line feed stands in the way.
\<close>

lemma job_id_pattern_match:
  assumes pre: "pre \<noteq> []" "CHR 0x0A \<notin> set pre"
      and jid: "jid \<noteq> []" "CHR 0x0A \<notin> set jid" "CHR ''_'' \<notin> set jid"
  shows "re_search job_id_pattern (pre @ ''_'' @ jid @ ''.conf'') = Some [jid]"
proof -
  let ?s = "pre @ ''_'' @ jid @ ''.conf''"
  let ?ts = "One (Lit CHR ''_'') # GroupPlus Dot # conf_tail"
  let ?f = "\<lambda>i. match_here ?ts (drop i ?s)"
  have len: "length (takeWhile (accepts Dot) ?s) = length ?s"
    using pre jid by (intro takeWhile_whole) auto
  have "backtrack ?f (length ?s) = Some [jid]"
  proof (rule backtrack_pick[where k = "length pre"])
    show "0 < length pre" using pre by simp
    show "length pre \<le> length ?s" by simp
    have "?f (length pre) = match_here (GroupPlus Dot # conf_tail) (jid @ ''.conf'')" by simp
    then show "?f (length pre) = Some [jid]" using group_takes_id jid by simp
  next
    fix i assume i: "length pre < i" "i \<le> length ?s"
    have "drop i ?s = drop (i - length pre - 1) (jid @ ''.conf'')"
      using i by (cases "i - length pre") auto
    moreover have "CHR ''_'' \<notin> set (drop (i - length pre - 1) (jid @ ''.conf''))"
      using jid by (auto dest!: in_set_dropD)
    ultimately show "?f i = None" using no_underscore by metis
  qed
  then have m: "match_here job_id_pattern ?s = Some [jid]"
    by (simp only: job_id_pattern_def conf_tail_def match_here.simps len)
  obtain c cs where "?s = c # cs" using pre by (cases pre) auto
  then show ?thesis using m by (metis option.simps(5) re_search.simps(2))
qed

lemma extract_job_id_instance_filepath:
  assumes "isabs (getcwd e)"
      and "CHR 0x0A \<notin> set (getcwd e)" "CHR 0x0A \<notin> set (JOB_INSTANCES_DIR e)"
      and "CHR 0x0A \<notin> set job_name"
      and "urandom6 \<noteq> []"
  shows "extract_job_id (get_job_instance_filepath e job_name (create_job_id urandom6))
         = Inr (create_job_id urandom6)"
proof -
  let ?jid = "create_job_id urandom6"
  obtain pre where pre: "get_job_instance_filepath e job_name ?jid = pre @ ''_'' @ ?jid @ ''.conf''"
      "pre \<noteq> []"
      "set pre \<subseteq> set (getcwd e) \<union> set (JOB_INSTANCES_DIR e) \<union> set job_name \<union> {CHR ''/''}"
    using instance_filepath_shape[OF assms(1)] by blast
  have "CHR 0x0A \<notin> set pre" using pre(3) assms(2-4) by auto
  moreover have "?jid \<noteq> []"
    using assms(5) b2a_hex_length[of urandom6] by (auto simp: create_job_id_def)
  moreover have "CHR 0x0A \<notin> set ?jid" "CHR ''_'' \<notin> set ?jid"
    using b2a_hex_chars[of urandom6] by (auto simp: create_job_id_def)
  ultimately have "re_search job_id_pattern (pre @ ''_'' @ ?jid @ ''.conf'') = Some [?jid]"
    using pre(2) by (intro job_id_pattern_match)
  then show ?thesis by (simp add: extract_job_id_def pre(1))
qed

subsection \<open>Round trip of the instance id\<close>

text \<open>
  C8 (as amended). For every job name, working directory and instance directory without
  a line feed, and every id generated from 6 random bytes, the id read back from the
  instance path by \<^verbatim>\<open>extract_job_id\<close> is the id the path was built from; the id has 12
  lower-case hexadecimal characters.
\<close>

theorem extract_job_id_round_trip:
  assumes "length urandom6 = 6"
      and "isabs (getcwd e)"
      and "CHR 0x0A \<notin> set (getcwd e)" and "CHR 0x0A \<notin> set (JOB_INSTANCES_DIR e)"
      and "CHR 0x0A \<notin> set job_name"
  shows "extract_job_id (get_job_instance_filepath e job_name (create_job_id urandom6))
           = Inr (create_job_id urandom6)
         \<and> length (create_job_id urandom6) = 12
         \<and> set (create_job_id urandom6) \<subseteq> set ''0123456789abcdef''"
proof -
  from assms(1) have "urandom6 \<noteq> []" by auto
  then have "extract_job_id (get_job_instance_filepath e job_name (create_job_id urandom6))
      = Inr (create_job_id urandom6)"
    using assms(2-5) by (intro extract_job_id_instance_filepath)
  then show ?thesis
    using assms(1) b2a_hex_length[of urandom6] b2a_hex_chars[of urandom6]
    by (simp add: create_job_id_def)
qed

theorem extract_job_id_round_trip_witness:
  "length [1, 2, 3, 4, 5, 6 :: 8 word] = 6
   \<and> isabs (getcwd example_env)
   \<and> CHR 0x0A \<notin> set (getcwd example_env) \<and> CHR 0x0A \<notin> set (JOB_INSTANCES_DIR example_env)
   \<and> CHR 0x0A \<notin> set ''job''
   \<and> extract_job_id (get_job_instance_filepath example_env ''job'' ''010203040506'')
       = Inr ''010203040506''"
  using extract_job_id_round_trip[of "[1, 2, 3, 4, 5, 6]" example_env "''job''"]
  by (simp add: example_env_def isabs_def create_job_id_def b2a_hex_def hexdigit_def)

text \<open>
  The claim as stated, for every job name, fails on a job name that ends in a line feed:
  the dot of the pattern does not match it, the search finds nothing, and
  \<^verbatim>\<open>matcher.group(1)\<close> raises AttributeError.
\<close>

theorem extract_job_id_round_trip_counterexample:
  "extract_job_id (get_job_instance_filepath example_env (''a'' @ [CHR 0x0A])
      (create_job_id [1, 2, 3, 4, 5, 6])) = Inl AttributeError"
  by (simp add: extract_job_id_def get_job_instance_filepath_def example_env_def
      create_job_id_def b2a_hex_def hexdigit_def abspath_def isabs_def path_join_def
      endswith_def get_job_instance_filename_def get_job_instance_def job_id_pattern_def
      conf_tail_def)

subsection \<open>The last lines of a transcript\<close>

text \<open>
  The position of a file just opened is 0, so \<^verbatim>\<open>max(file_size - 4*1024, 0)\<close> is 0 and
  the whole file is read, whatever its size.
\<close>

lemma get_last_lines_of_file:
  "lookup e w path = Some (File c t) \<Longrightarrow>
   get_last_lines e w path n = Inr (slice_from_neg (splitlines c) n)"
  by (simp add: get_last_lines_def path_exists_def open_r_def tell_def seek_def read_def)

lemma get_last_lines_missing:
  "lookup e w path = None \<Longrightarrow> get_last_lines e w path n = Inr []"
  by (simp add: get_last_lines_def path_exists_def)

lemma slice_from_neg_all: "int (length xs) < n \<Longrightarrow> slice_from_neg xs n = xs"
  by (simp add: slice_from_neg_def)

lemma splitlines_acc_plain:
  "CHR 0x0A \<notin> set l \<Longrightarrow> CHR 0x0D \<notin> set l \<Longrightarrow>
   splitlines_acc acc (l @ CHR 0x0A # rest) = (rev acc @ l) # splitlines_acc [] rest"
  by (induction l arbitrary: acc) auto

lemma splitlines_terminated:
  "(\<And>l. l \<in> set ls \<Longrightarrow> CHR 0x0A \<notin> set l \<and> CHR 0x0D \<notin> set l) \<Longrightarrow>
   splitlines (concat (map (\<lambda>l. l @ [CHR 0x0A]) ls)) = ls"
  unfolding splitlines_def
  by (induction ls) (simp_all add: splitlines_acc_plain)

lemma splitlines_acc_replicate:
  "b \<noteq> CHR 0x0A \<Longrightarrow> b \<noteq> CHR 0x0D \<Longrightarrow> 0 < n \<Longrightarrow>
   splitlines_acc acc (replicate n b) = [rev acc @ replicate n b]"
proof (induction n arbitrary: acc)
  case 0
  then show ?case by simp
next
  case (Suc n)
  show ?case
  proof (cases n)
    case 0
    then show ?thesis using Suc.prems by simp
  next
    case (Suc m)
    then have "splitlines_acc (b # acc) (replicate n b) = [rev (b # acc) @ replicate n b]"
      using Suc.IH[of "b # acc"] Suc.prems by simp
    then show ?thesis using Suc.prems by (simp add: replicate_append_same)
  qed
qed

lemma splitlines_big_log: "splitlines big_log = [''A'', replicate 4096 CHR ''b'']"
  using splitlines_acc_replicate[of "CHR ''b''" 4096 "[]"]
  by (simp add: big_log_def splitlines_def)

text \<open>
  C9. On a path that does not exist \<^verbatim>\<open>get_last_lines\<close> returns the empty list and raises
  nothing, for every \<open>n\<close>. On a file with fewer than \<open>n\<close> lines it returns all the lines
  of the file, in their order and without their terminators: the lines \<^verbatim>\<open>splitlines\<close>
  makes of the content, which for a file written as lines ended by a line feed are
  those very lines.
\<close>

theorem get_last_lines_missing_or_short:
  "(\<not> path_exists e w path \<longrightarrow> get_last_lines e w path n = Inr [])
   \<and> (lookup e w path = Some (File c t) \<and> int (length (splitlines c)) < n
        \<longrightarrow> get_last_lines e w path n = Inr (splitlines c))
   \<and> (lookup e w path = Some (File (concat (map (\<lambda>l. l @ [CHR 0x0A]) ls)) t)
        \<and> (\<forall>l \<in> set ls. CHR 0x0A \<notin> set l \<and> CHR 0x0D \<notin> set l) \<and> int (length ls) < n
        \<longrightarrow> get_last_lines e w path n = Inr ls)"
proof (intro conjI impI)
  assume "\<not> path_exists e w path"
  then show "get_last_lines e w path n = Inr []"
    by (simp add: get_last_lines_def)
next
  assume "lookup e w path = Some (File c t) \<and> int (length (splitlines c)) < n"
  then show "get_last_lines e w path n = Inr (splitlines c)"
    by (simp add: get_last_lines_of_file slice_from_neg_all)
next
  assume a: "lookup e w path = Some (File (concat (map (\<lambda>l. l @ [CHR 0x0A]) ls)) t)
      \<and> (\<forall>l \<in> set ls. CHR 0x0A \<notin> set l \<and> CHR 0x0D \<notin> set l) \<and> int (length ls) < n"
  then have "splitlines (concat (map (\<lambda>l. l @ [CHR 0x0A]) ls)) = ls"
    by (intro splitlines_terminated) blast
  with a show "get_last_lines e w path n = Inr ls"
    by (simp add: get_last_lines_of_file slice_from_neg_all)
qed

theorem get_last_lines_missing_or_short_witness:
  "\<not> path_exists example_env short_log_world ''/tmp/job_ffffffffffff.log''
   \<and> get_last_lines example_env short_log_world ''/tmp/job_ffffffffffff.log'' 100 = Inr []
   \<and> lookup example_env short_log_world ''/tmp/job_010203040506.log''
       = Some (File (concat (map (\<lambda>l. l @ [CHR 0x0A]) [''one'', ''two''])) 1)
   \<and> int (length (splitlines (concat (map (\<lambda>l. l @ [CHR 0x0A]) [''one'', ''two''])))) < 100
   \<and> int (length [''one'', ''two'']) < 100
   \<and> get_last_lines example_env short_log_world ''/tmp/job_010203040506.log'' 100
       = Inr [''one'', ''two'']"
  using get_last_lines_missing_or_short[of example_env short_log_world
      "''/tmp/job_ffffffffffff.log''" 100 "[]" 0 "[]"]
    get_last_lines_missing_or_short[of example_env short_log_world
      "''/tmp/job_010203040506.log''" 100
      "concat (map (\<lambda>l. l @ [CHR 0x0A]) [''one'', ''two''])" 1 "[''one'', ''two'']"]
  by (simp add: path_exists_def lookup_def short_log_world_def example_env_def abspath_def
      isabs_def splitlines_def)

text \<open>
  C3 (the code departs from the claim). On a transcript of 4098 bytes, a line \<^verbatim>\<open>A\<close> and
  a line of 4096 \<^verbatim>\<open>b\<close>, \<^verbatim>\<open>get_last_lines\<close> with \<open>n = 2\<close> returns both lines, so it has read
  more than the last 4 KiB; the tail of the specification returns the one line that
  lies in the window.
\<close>

theorem get_last_lines_reads_whole_file:
  "length big_log = 4098
   \<and> get_last_lines example_env big_log_world ''/tmp/job_010203040506.log'' 2
       = Inr [''A'', replicate 4096 CHR ''b'']
   \<and> tail_spec big_log 2 = [replicate 4096 CHR ''b'']"
proof -
  have "lookup example_env big_log_world ''/tmp/job_010203040506.log'' = Some (File big_log 1)"
    by (simp add: lookup_def big_log_world_def abspath_def isabs_def)
  then have "get_last_lines example_env big_log_world ''/tmp/job_010203040506.log'' 2
      = Inr (slice_from_neg (splitlines big_log) 2)"
    by (rule get_last_lines_of_file)
  moreover have "drop (length big_log - 4 * 1024) big_log = replicate 4096 CHR ''b''"
    by (simp add: big_log_def)
  moreover have "splitlines (replicate 4096 CHR ''b'') = [replicate 4096 CHR ''b'']"
    using splitlines_acc_replicate[of "CHR ''b''" 4096 "[]"] by (simp add: splitlines_def)
  ultimately show ?thesis
    by (simp add: splitlines_big_log tail_spec_def slice_from_neg_def) (simp add: big_log_def)
qed

subsection \<open>The status of a job\<close>

lemma get_job_status_active:
  "fst (fst (get_job_status e job_name p w)) =
     (succeeded (run e (JOB_HOSTNAME e) (''zdaemon -C'' @ p @ '' status''))
      \<and> py_in ''program running''
            (stdout (run e (JOB_HOSTNAME e) (''zdaemon -C'' @ p @ '' status''))))"
  by (simp add: get_job_status_def remote_run_def Let_def)

lemma get_job_status_pid:
  "snd (fst (get_job_status e job_name p w)) =
     (if fst (fst (get_job_status e job_name p w))
      then extract_process_id (stdout (run e (JOB_HOSTNAME e) (''zdaemon -C'' @ p @ '' status'')))
      else - 1)"
  by (simp add: get_job_status_def remote_run_def Let_def)

lemma get_job_status_files: "files (snd (get_job_status e job_name p w)) = files w"
  by (simp add: get_job_status_def remote_run_def log_def Let_def)

lemma get_job_status_commands:
  "commands (snd (get_job_status e job_name p w)) = commands w @ [''zdaemon -C'' @ p @ '' status'']"
  by (simp add: get_job_status_def remote_run_def log_def Let_def)

lemma log_files: "files (log l f a w) = files w"
  by (simp add: log_def)

lemma log_commands: "commands (log l f a w) = commands w"
  by (simp add: log_def)

lemmas eval_world = get_latest_job_instance_def listdir_def lookup_def child_name_def splitext_def
  rfind_def isfile_def getmtime_def abspath_def isabs_def path_join_def endswith_def
  List.map_filter_def path_exists_def succeeded_def

lemmas eval_names = get_job_instance_filepath_def get_job_instance_filename_def
  get_job_instance_def get_job_instance_logpath_def get_job_instance_logname_def
  get_job_template_filepath_def get_job_template_filename_def create_job_id_def b2a_hex_def
  hexdigit_def

lemmas eval_status = get_job_status_def remote_run_def log_def extract_process_id_def
  pid_pattern_def int_of_digits_def digit_value_def Let_def succeeded_def

text \<open>
  C5 (as amended). The remote execution reports success exactly on the exit status 0,
  so a status result with another exit code makes \<^verbatim>\<open>get_job_status\<close> report the job as not
  active, with the process id \<open>-1\<close>, also when the output contains \<^verbatim>\<open>program running\<close>; a
  positive exit code is logged as a warning before. On the exit status 0 the job is
  reported active exactly when the output contains \<^verbatim>\<open>program running\<close>, with the pid
  read from the output.
\<close>

theorem get_job_status_exit_code:
  assumes "run e (JOB_HOSTNAME e) (''zdaemon -C'' @ p @ '' status'') = r"
  shows "(return_code r \<noteq> 0 \<longrightarrow> fst (get_job_status e job_name p w) = (False, - 1))
         \<and> (0 < return_code r \<longrightarrow>
               logged (snd (get_job_status e job_name p w))
                 = logged w @
                   [(WARN, ''Problem while checking job status: %s'', [S (stdout r)]),
                    (INFO, ''%s running? %s [pid=%d]'', [S job_name, B False, I (- 1)])])
         \<and> (return_code r = 0 \<longrightarrow>
               fst (get_job_status e job_name p w)
                 = (py_in ''program running'' (stdout r),
                    if py_in ''program running'' (stdout r)
                    then extract_process_id (stdout r) else - 1))"
  using assms by (simp add: get_job_status_def remote_run_def log_def succeeded_def Let_def)

theorem get_job_status_exit_code_witness:
  "run failing_env (JOB_HOSTNAME failing_env)
       (''zdaemon -C'' @ ''/srv/instances/job_010203040506.conf'' @ '' status'')
     = \<lparr>return_code = 1, stdout = ''program running, pid=4321''\<rparr>
   \<and> py_in ''program running'' ''program running, pid=4321''
   \<and> fst (get_job_status failing_env ''job'' ''/srv/instances/job_010203040506.conf''
         example_world) = (False, - 1)
   \<and> logged (snd (get_job_status failing_env ''job'' ''/srv/instances/job_010203040506.conf''
         example_world))
       = [(WARN, ''Problem while checking job status: %s'', [S ''program running, pid=4321'']),
          (INFO, ''%s running? %s [pid=%d]'', [S ''job'', B False, I (- 1)])]
   \<and> run running_env (JOB_HOSTNAME running_env)
       (''zdaemon -C'' @ ''/srv/instances/job_010203040506.conf'' @ '' status'')
     = \<lparr>return_code = 0, stdout = ''program running, pid=4321''\<rparr>
   \<and> fst (get_job_status running_env ''job'' ''/srv/instances/job_010203040506.conf''
         example_world) = (True, 4321)"
proof -
  have f: "run failing_env (JOB_HOSTNAME failing_env)
       (''zdaemon -C'' @ ''/srv/instances/job_010203040506.conf'' @ '' status'')
     = \<lparr>return_code = 1, stdout = ''program running, pid=4321''\<rparr>"
    by (simp add: failing_env_def example_env_def)
  have r: "run running_env (JOB_HOSTNAME running_env)
       (''zdaemon -C'' @ ''/srv/instances/job_010203040506.conf'' @ '' status'')
     = \<lparr>return_code = 0, stdout = ''program running, pid=4321''\<rparr>"
    by (simp add: running_env_def example_env_def)
  have m: "py_in ''program running'' ''program running, pid=4321''"
    by simp
  have pid: "extract_process_id ''program running, pid=4321'' = 4321"
    by (simp add: extract_process_id_def pid_pattern_def int_of_digits_def digit_value_def)
  show ?thesis
    using get_job_status_exit_code[OF f, of "''job''" example_world]
      get_job_status_exit_code[OF r, of "''job''" example_world] f r m
    by (simp add: pid example_world_def)
qed

text \<open>
  The claim as stated fails: there is no status result with \<^verbatim>\<open>program running\<close> in its
  output and an exit code other than 0 on which the job is reported active. On the
  exit status 1 and the output \<^verbatim>\<open>program running, pid=4321\<close> the report is not active.
\<close>

theorem get_job_status_exit_code_counterexample:
  "\<not> (\<exists>r. py_in ''program running'' (stdout r) \<and> return_code r \<noteq> 0
          \<and> fst (fst (get_job_status (example_env\<lparr>run := (\<lambda>host cmd. r)\<rparr>) ''job''
                ''/srv/instances/job_010203040506.conf'' example_world)))
   \<and> fst (get_job_status failing_env ''job'' ''/srv/instances/job_010203040506.conf''
         example_world) = (False, - 1)"
  by (simp add: get_job_status_def remote_run_def log_def succeeded_def Let_def
      failing_env_def)

subsection \<open>Stopping an instance that does not run\<close>

text \<open>
  C7. A stop request for an instance that exists and that the supervisor does not
  report as active (the status command failed, or its output lacks \<^verbatim>\<open>program running\<close>)
  is answered with 403 and \<^verbatim>\<open>job has already finished\<close>. The files of the store, templates
  and instances, are what they were, and the one remote command of the request is the
  status command: no stop command is issued.
\<close>

theorem stop_job_instance_already_finished:
  assumes "exists_job_instance e w job_name job_id"
      and "\<not> (succeeded (run e (JOB_HOSTNAME e)
                  (''zdaemon -C'' @ get_job_instance_filepath e job_name job_id @ '' status''))
             \<and> py_in ''program running'' (stdout (run e (JOB_HOSTNAME e)
                  (''zdaemon -C'' @ get_job_instance_filepath e job_name job_id @ '' status''))))"
  shows "fst (stop_job_instance e job_name job_id w)
           = Inr \<lparr>status = 403,
                  body = Json (JObj [(''status'', JStr ''FINISHED''),
                                     (''message'', JStr ''job has already finished'')]),
                  mimetype = ''application/json'', link = None\<rparr>
         \<and> files (snd (stop_job_instance e job_name job_id w)) = files w
         \<and> commands (snd (stop_job_instance e job_name job_id w))
             = commands w
               @ [''zdaemon -C'' @ get_job_instance_filepath e job_name job_id @ '' status'']"
proof -
  let ?p = "get_job_instance_filepath e job_name job_id"
  obtain a pid w1 where s: "get_job_status e job_name ?p w = ((a, pid), w1)"
    by (metis prod.exhaust)
  have "\<not> a"
    using assms(2) get_job_status_active[of e job_name ?p w] s by simp
  moreover have "files w1 = files w"
      "commands w1 = commands w @ [''zdaemon -C'' @ ?p @ '' status'']"
    using get_job_status_files[of e job_name ?p w] get_job_status_commands[of e job_name ?p w] s
    by simp_all
  ultimately show ?thesis
    using assms(1) s by (simp add: stop_job_instance_def)
qed

theorem stop_job_instance_already_finished_witness:
  "exists_job_instance example_env example_world ''job'' ''010203040506''
   \<and> \<not> succeeded (run example_env (JOB_HOSTNAME example_env)
         (''zdaemon -C'' @ get_job_instance_filepath example_env ''job'' ''010203040506''
            @ '' status''))
   \<and> fst (stop_job_instance example_env ''job'' ''010203040506'' example_world)
       = Inr \<lparr>status = 403,
              body = Json (JObj [(''status'', JStr ''FINISHED''),
                                 (''message'', JStr ''job has already finished'')]),
              mimetype = ''application/json'', link = None\<rparr>
   \<and> files (snd (stop_job_instance example_env ''job'' ''010203040506'' example_world))
       = files example_world
   \<and> commands (snd (stop_job_instance example_env ''job'' ''010203040506'' example_world))
       = [''zdaemon -C/srv/instances/job_010203040506.conf status'']"
  using stop_job_instance_already_finished[of example_env example_world "''job''" "''010203040506''"]
  by (simp add: exists_job_instance_def eval_world eval_names example_env_def example_world_def)

subsection \<open>Starting a job that already runs\<close>

text \<open>
  C1 (as amended). A start request with Content-Type \<^verbatim>\<open>application/json\<close>, on a job name
  whose latest instance is the instance file of a generated id, with no line feed in
  its path, and is reported as active by the supervisor (the status command succeeded
  and its output contains \<^verbatim>\<open>program running\<close>), is answered with 303 and the status
  \<^verbatim>\<open>RUNNING\<close>; the Link header leads to that instance id and the message names the pid.
  No file of the store is created or changed, and the one remote command of the request
  is the status command: no start command is issued.
\<close>

theorem start_job_instance_already_running:
  assumes ct: "content_type req = Some ''application/json''"
      and latest: "get_latest_job_instance e w job_name
                     = Inr (Some (get_job_instance_filepath e name' (create_job_id rnd)))"
      and rnd: "length rnd = 6"
      and wf: "isabs (getcwd e)" "CHR 0x0A \<notin> set (getcwd e)"
              "CHR 0x0A \<notin> set (JOB_INSTANCES_DIR e)" "CHR 0x0A \<notin> set name'"
      and active:
        "succeeded (run e (JOB_HOSTNAME e)
           (''zdaemon -C'' @ get_job_instance_filepath e name' (create_job_id rnd) @ '' status''))
         \<and> py_in ''program running'' (stdout (run e (JOB_HOSTNAME e)
           (''zdaemon -C'' @ get_job_instance_filepath e name' (create_job_id rnd) @ '' status'')))"
  shows "fst (start_job_instance e urandom6 req job_name w)
           = Inr \<lparr>status = 303,
                  body = Json (JObj
                    [(''status'', JStr ''RUNNING''),
                     (''message'', JStr (''job '' @ [CHR 0x27] @ job_name @ [CHR 0x27]
                        @ '' is still running with process id ''
                        @ str_int (extract_process_id (stdout (run e (JOB_HOSTNAME e)
                            (''zdaemon -C'' @ get_job_instance_filepath e name' (create_job_id rnd)
                               @ '' status''))))))]),
                  mimetype = ''application/json'',
                  link = Some (Url_for ''get_job_by_id''
                    [(''job_name'', job_name), (''job_id'', create_job_id rnd)])\<rparr>
         \<and> files (snd (start_job_instance e urandom6 req job_name w)) = files w
         \<and> commands (snd (start_job_instance e urandom6 req job_name w))
             = commands w
               @ [''zdaemon -C'' @ get_job_instance_filepath e name' (create_job_id rnd)
                    @ '' status'']"
proof -
  let ?p = "get_job_instance_filepath e name' (create_job_id rnd)"
  let ?w1 = "log INFO ''Found job instance, check if still running...'' [] w"
  have nonempty: "?p \<noteq> []"
    using instance_filepath_shape[OF wf(1), of name' "create_job_id rnd"] by auto
  have jid: "extract_job_id ?p = Inr (create_job_id rnd)"
    using rnd wf by (intro extract_job_id_instance_filepath) auto
  obtain a pid w2 where s: "get_job_status e job_name ?p ?w1 = ((a, pid), w2)"
    by (metis prod.exhaust)
  have a: "a"
    using active get_job_status_active[of e job_name ?p ?w1] s by simp
  have pid: "pid = extract_process_id
      (stdout (run e (JOB_HOSTNAME e) (''zdaemon -C'' @ ?p @ '' status'')))"
    using a get_job_status_pid[of e job_name ?p ?w1] s by simp
  have w2: "files w2 = files w" "commands w2 = commands w @ [''zdaemon -C'' @ ?p @ '' status'']"
    using get_job_status_files[of e job_name ?p ?w1]
      get_job_status_commands[of e job_name ?p ?w1] s
    by (simp_all add: log_files log_commands)
  show ?thesis
    using ct latest nonempty jid s a pid w2 by (simp add: start_job_instance_def found_def)
qed

theorem start_job_instance_already_running_witness:
  "content_type \<lparr>content_type = Some ''application/json'', json_body = None\<rparr>
     = Some ''application/json''
   \<and> get_latest_job_instance running_env example_world ''job''
       = Inr (Some (get_job_instance_filepath running_env ''job'' (create_job_id [1, 2, 3, 4, 5, 6])))
   \<and> fst (start_job_instance running_env [6, 5, 4, 3, 2, 1]
        \<lparr>content_type = Some ''application/json'', json_body = None\<rparr> ''job'' example_world)
       = Inr \<lparr>status = 303,
              body = Json (JObj
                [(''status'', JStr ''RUNNING''),
                 (''message'', JStr (''job '' @ [CHR 0x27] @ ''job'' @ [CHR 0x27]
                    @ '' is still running with process id 4321''))]),
              mimetype = ''application/json'',
              link = Some (Url_for ''get_job_by_id''
                [(''job_name'', ''job''), (''job_id'', ''010203040506'')])\<rparr>
   \<and> files (snd (start_job_instance running_env [6, 5, 4, 3, 2, 1]
        \<lparr>content_type = Some ''application/json'', json_body = None\<rparr> ''job'' example_world))
       = files example_world
   \<and> commands (snd (start_job_instance running_env [6, 5, 4, 3, 2, 1]
        \<lparr>content_type = Some ''application/json'', json_body = None\<rparr> ''job'' example_world))
       = [''zdaemon -C/srv/instances/job_010203040506.conf status'']"
proof -
  have p: "get_job_instance_filepath running_env ''job'' (create_job_id [1, 2, 3, 4, 5, 6])
      = ''/srv/instances/job_010203040506.conf''"
    by (simp add: eval_names running_env_def example_env_def abspath_def isabs_def path_join_def
        endswith_def)
  have l: "get_latest_job_instance running_env example_world ''job''
      = Inr (Some ''/srv/instances/job_010203040506.conf'')"
    by (simp add: eval_world running_env_def example_env_def example_world_def)
  have pid: "extract_process_id ''program running, pid=4321'' = 4321"
    by (simp add: extract_process_id_def pid_pattern_def int_of_digits_def digit_value_def)
  have s: "str_int 4321 = ''4321''"
    by (simp add: str_int_def)
  show ?thesis
    using start_job_instance_already_running[of
        "\<lparr>content_type = Some ''application/json'', json_body = None\<rparr>" running_env
        example_world "''job''" "''job''" "[1, 2, 3, 4, 5, 6]" "[6, 5, 4, 3, 2, 1]"]
    unfolding p l
    by (simp add: pid s running_env_def example_env_def isabs_def create_job_id_def b2a_hex_def
        hexdigit_def example_world_def succeeded_def)
qed

text \<open>
  The claim as stated, for every start request, fails twice. With another Content-Type
  the handler answers 415 before it looks for an instance, although the latest instance
  is active. And for a job name that ends in a line feed the id cannot be read from
  the path of the active instance: \<^verbatim>\<open>extract_job_id\<close> raises AttributeError and the
  handler returns no response.
\<close>

theorem start_job_instance_already_running_counterexample:
  "get_latest_job_instance running_env example_world ''job''
     = Inr (Some ''/srv/instances/job_010203040506.conf'')
   \<and> fst (fst (get_job_status running_env ''job'' ''/srv/instances/job_010203040506.conf''
         example_world))
   \<and> fst (start_job_instance running_env [6, 5, 4, 3, 2, 1]
        \<lparr>content_type = Some ''text/plain'', json_body = None\<rparr> ''job'' example_world)
       = Inr \<lparr>status = 415,
              body = Text (''Only '' @ [CHR 0x27] @ ''application/json'' @ [CHR 0x27]
                     @ '' currently supported as media type''),
              mimetype = ''text/html'', link = None\<rparr>
   \<and> get_latest_job_instance running_env newline_world (''a'' @ [CHR 0x0A])
     = Inr (Some (''/srv/instances/a'' @ [CHR 0x0A] @ ''_010203040506.conf''))
   \<and> fst (fst (get_job_status running_env (''a'' @ [CHR 0x0A])
         (''/srv/instances/a'' @ [CHR 0x0A] @ ''_010203040506.conf'') newline_world))
   \<and> fst (start_job_instance running_env [6, 5, 4, 3, 2, 1]
        \<lparr>content_type = Some ''application/json'', json_body = None\<rparr> (''a'' @ [CHR 0x0A])
        newline_world)
       = Inl AttributeError"
proof (intro conjI)
  show "get_latest_job_instance running_env example_world ''job''
     = Inr (Some ''/srv/instances/job_010203040506.conf'')"
    by (simp add: eval_world running_env_def example_env_def example_world_def)
  show "fst (fst (get_job_status running_env ''job'' ''/srv/instances/job_010203040506.conf''
      example_world))"
    by (simp add: eval_status running_env_def example_env_def)
  show "fst (start_job_instance running_env [6, 5, 4, 3, 2, 1]
        \<lparr>content_type = Some ''text/plain'', json_body = None\<rparr> ''job'' example_world)
       = Inr \<lparr>status = 415,
              body = Text (''Only '' @ [CHR 0x27] @ ''application/json'' @ [CHR 0x27]
                     @ '' currently supported as media type''),
              mimetype = ''text/html'', link = None\<rparr>"
    by (simp add: start_job_instance_def)
  show l: "get_latest_job_instance running_env newline_world (''a'' @ [CHR 0x0A])
     = Inr (Some (''/srv/instances/a'' @ [CHR 0x0A] @ ''_010203040506.conf''))"
    by (simp add: eval_world running_env_def example_env_def newline_world_def)
  show "fst (fst (get_job_status running_env (''a'' @ [CHR 0x0A])
         (''/srv/instances/a'' @ [CHR 0x0A] @ ''_010203040506.conf'') newline_world))"
    by (simp add: eval_status running_env_def example_env_def)
  have x: "extract_job_id (''/srv/instances/a'' @ [CHR 0x0A] @ ''_010203040506.conf'')
      = Inl AttributeError"
    by (simp add: extract_job_id_def job_id_pattern_def conf_tail_def)
  show "fst (start_job_instance running_env [6, 5, 4, 3, 2, 1]
        \<lparr>content_type = Some ''application/json'', json_body = None\<rparr> (''a'' @ [CHR 0x0A])
        newline_world)
       = Inl AttributeError"
    using x l
    by (simp add: start_job_instance_def found_def eval_status running_env_def example_env_def)
qed

subsection \<open>The status of a job without a template\<close>




subsection \<open>Starting a new instance\<close>






text \<open>
  C2 (the code departs from the claim). A start request for the job name \<^verbatim>\<open>nojob\<close>, which
  has no template and no instance: \<^verbatim>\<open>create_jobconf\<close> opens the instance file for writing
  and then fails to open the template. The handler raises the IOError of that open, it
  returns no response of its own, and the empty instance file stays in the store.
\<close>

theorem start_job_instance_without_template:
  "\<not> exists_job_template example_env example_world ''nojob''
   \<and> get_latest_job_instance example_env example_world ''nojob'' = Inr None
   \<and> fst (start_job_instance example_env [1, 2, 3, 4, 5, 6]
        \<lparr>content_type = Some ''application/json'',
         json_body = Some (JObj [(''parameters'', JObj [])])\<rparr> ''nojob'' example_world)
       = Inl (IOError ENOENT ''templates/nojob.conf'')
   \<and> files (snd (start_job_instance example_env [1, 2, 3, 4, 5, 6]
        \<lparr>content_type = Some ''application/json'',
         json_body = Some (JObj [(''parameters'', JObj [])])\<rparr> ''nojob'' example_world))
       = files example_world @ [(''/srv/instances/nojob_010203040506.conf'', File [] 10)]"
proof -
  have t: "\<not> exists_job_template example_env example_world ''nojob''"
    by (simp add: exists_job_template_def eval_world eval_names example_env_def
        example_world_def)
  have l: "get_latest_job_instance example_env example_world ''nojob'' = Inr None"
    by (simp add: eval_world example_env_def example_world_def)
  have c: "create_jobconf example_env ''010203040506'' ''nojob'' (JObj [])
        (example_world\<lparr>logged := lg\<rparr>)
     = (Inl (IOError ENOENT ''templates/nojob.conf''),
        example_world\<lparr>logged := lg,
          files := files example_world
            @ [(''/srv/instances/nojob_010203040506.conf'', File [] 10)]\<rparr>)" for lg
    by (simp add: create_jobconf_def ensure_job_instance_directory_def open_w_def open_r_def
        in_directory_def file_above_def inside_def Let_def eval_world eval_names example_env_def
        example_world_def)
  have j: "create_job_id [1, 2, 3, 4, 5, 6] = ''010203040506''"
    by (simp add: eval_names)
  show ?thesis
    using t l
    by (simp add: start_job_instance_def start_new_instance_def job_params_of_def j log_def
        c[unfolded example_world_def, simplified] example_world_def)
qed

subsection \<open>Rendering an instance from its template\<close>




































lemma isabs_abspath: "isabs cwd \<Longrightarrow> isabs (abspath cwd p)"
  by (cases cwd) (auto simp: abspath_def isabs_def path_join_def)

lemma abspath_idem: "isabs cwd \<Longrightarrow> abspath cwd (abspath cwd p) = abspath cwd p"
  using isabs_abspath[of cwd p] by (simp add: abspath_def[of cwd "abspath cwd p"])










end
